theory Spec2Isabelle
  imports Main "HOL-Library.Sublist"
begin

section \<open>Strings and paths\<close>

text \<open>
  The module \<^verbatim>\<open>dataio.py\<close> computes paths with \<^verbatim>\<open>pathlib\<close> below one project
  root and reads or creates directories there. A path is modelled as the list of its
  components below the filesystem root \<^verbatim>\<open>/\<close> (every path the module builds is absolute,
  since it starts from \<^verbatim>\<open>Path.cwd()\<close>); the empty list is the filesystem root itself.
\<close>

type_synonym path = "string list"

text \<open>Splitting a string at every \<^verbatim>\<open>/\<close>, as \<^verbatim>\<open>str.split('/')\<close> does.\<close>

fun split_slash :: "string \<Rightarrow> string list" where
  "split_slash [] = [[]]"
| "split_slash (c # cs) =
     (if c = CHR ''/'' then [] # split_slash cs
      else (case split_slash cs of [] \<Rightarrow> [[c]] | w # ws \<Rightarrow> (c # w) # ws))"

text \<open>
  The components pathlib reads from a string on POSIX: empty components and \<^verbatim>\<open>.\<close> are
  dropped (\<^verbatim>\<open>..\<close> is kept). The special root \<^verbatim>\<open>//\<close> of POSIX is not modelled.
\<close>

definition parse_parts :: "string \<Rightarrow> string list" where
  "parse_parts s = filter (\<lambda>w. w \<noteq> [] \<and> w \<noteq> ''.'') (split_slash s)"

text \<open>\<^verbatim>\<open>p / s\<close>: an absolute segment replaces the path, a relative one is appended.\<close>

definition joinpath :: "path \<Rightarrow> string \<Rightarrow> path" where
  "joinpath p s =
     (case s of
        [] \<Rightarrow> p
      | c # _ \<Rightarrow> if c = CHR ''/'' then parse_parts s else p @ parse_parts s)"


fun intercalate :: "string \<Rightarrow> string list \<Rightarrow> string" where
  "intercalate sep [] = []"
| "intercalate sep [w] = w"
| "intercalate sep (w # v # ws) = w @ sep @ intercalate sep (v # ws)"

text \<open>\<^verbatim>\<open>str(p)\<close> of an absolute path.\<close>

definition path_str :: "path \<Rightarrow> string" where
  "path_str p = CHR ''/'' # intercalate ''/'' p"

text \<open>\<^verbatim>\<open>str(n)\<close> of a Python integer: decimal digits, a minus sign when negative.\<close>

definition digit_char :: "nat \<Rightarrow> char" where
  "digit_char n = ''0123456789'' ! n"

function str_nat :: "nat \<Rightarrow> string" where
  "str_nat n = (if n < 10 then [digit_char n] else str_nat (n div 10) @ [digit_char (n mod 10)])"
  by pat_completeness auto
termination
  by (relation "measure (\<lambda>n. n)") auto

declare str_nat.simps [simp del]

definition str_int :: "int \<Rightarrow> string" where
  "str_int i = (if i < 0 then CHR ''-'' # str_nat (nat (- i)) else str_nat (nat i))"



text \<open>\<^verbatim>\<open>s.replace(".", "_")\<close>.\<close>

definition replace_dots :: "string \<Rightarrow> string" where
  "replace_dots s = map (\<lambda>c. if c = CHR ''.'' then CHR ''_'' else c) s"

section \<open>Errors\<close>

text \<open>
  The exceptions the module raises, by their Python class, with the message (or, for the
  errors of the operating system, the path) they carry.
\<close>

datatype error =
    ValueError string
  | KeyError string
  | RuntimeError string
  | FileNotFoundError string
  | OverflowError string
  | FileExistsError path
  | NotADirectoryError path

section \<open>The directory layout\<close>

text \<open>
  \<^verbatim>\<open>PROJECT_ROOT\<close> is computed once when the module is imported; every directory of the
  layout is derived from it by joining names. The model takes the root as an argument.
\<close>

definition DATA_DIR :: "path \<Rightarrow> path" where
  "DATA_DIR root = joinpath root ''data''"










definition DERIVED_DIR :: "path \<Rightarrow> path" where
  "DERIVED_DIR root = joinpath (DATA_DIR root) ''derived''"




section \<open>Path helpers\<close>



section \<open>The filesystem\<close>

text \<open>
  What the module sees of the filesystem: which absolute paths exist, and whether each is
  a directory or something else (a regular file). The filesystem root always exists and
  is a directory.
\<close>

datatype node = File | Dir

type_synonym fs = "path \<Rightarrow> node option"

text \<open>\<^verbatim>\<open>p.exists()\<close> and \<^verbatim>\<open>p.is_dir()\<close>.\<close>

definition path_exists :: "fs \<Rightarrow> path \<Rightarrow> bool" where
  "path_exists fs p = (p = [] \<or> fs p \<noteq> None)"

definition is_dir :: "fs \<Rightarrow> path \<Rightarrow> bool" where
  "is_dir fs p = (p = [] \<or> fs p = Some Dir)"

text \<open>
  \<^verbatim>\<open>p.mkdir(parents=True, exist_ok=True)\<close>: walking down from the filesystem root, every
  missing component is created as a directory and every existing directory is kept. A
  component that exists and is not a directory makes the call fail, with
  \<^verbatim>\<open>FileExistsError\<close> when it is the last component and \<^verbatim>\<open>NotADirectoryError\<close> when
  it is an inner one; the exception names the path the call was made on, and nothing has
  been created then (the parent of every entry of a filesystem is a directory, so nothing
  is missing above the component that is in the way). Components are taken as names:
  \<^verbatim>\<open>..\<close> is not resolved.
\<close>

fun mkdirs :: "path \<Rightarrow> fs \<Rightarrow> path \<Rightarrow> string list \<Rightarrow> error + fs" where
  "mkdirs target fs cur [] = Inr fs"
| "mkdirs target fs cur (c # cs) =
     (case fs (cur @ [c]) of
        Some Dir \<Rightarrow> mkdirs target fs (cur @ [c]) cs
      | Some File \<Rightarrow> Inl (if cs = [] then FileExistsError target else NotADirectoryError target)
      | None \<Rightarrow> mkdirs target (fs(cur @ [c] \<mapsto> Dir)) (cur @ [c]) cs)"

definition mkdir_p :: "fs \<Rightarrow> path \<Rightarrow> error + fs" where
  "mkdir_p fs p = mkdirs p fs [] p"

text \<open>
  Two conditions on a filesystem and a path, in which the effect of \<^const>\<open>mkdir_p\<close> is
  stated: no component of the path exists as something other than a directory; every
  component of the path is a directory.
\<close>

definition free_of_files :: "fs \<Rightarrow> path \<Rightarrow> bool" where
  "free_of_files fs p = list_all (\<lambda>q. q = [] \<or> fs q \<noteq> Some File) (prefixes p)"

definition all_dirs :: "fs \<Rightarrow> path \<Rightarrow> bool" where
  "all_dirs fs p = list_all (is_dir fs) (prefixes p)"

section \<open>Root detection\<close>




section \<open>Creating the layout\<close>




section \<open>Method output directories\<close>

definition InvalidMethod :: error where
  "InvalidMethod = ValueError ''method must be one of {'method1','method2','method3'}''"

text \<open>
  \<^verbatim>\<open>method_dir(method, eps)\<close>. The argument \<^verbatim>\<open>eps\<close> is only ever passed to \<^verbatim>\<open>str\<close>;
  the model takes Python's \<^verbatim>\<open>str\<close> on the values of \<^verbatim>\<open>eps\<close> as the parameter
  \<open>py_str\<close> (for an integer it is \<^const>\<open>str_int\<close>).
\<close>

definition method_dir ::
  "('e \<Rightarrow> string) \<Rightarrow> path \<Rightarrow> string \<Rightarrow> 'e \<Rightarrow> fs \<Rightarrow> (error + path) \<times> fs" where
  "method_dir py_str root method eps fs =
     (if method \<notin> {''method1'', ''method2'', ''method3''} then (Inl InvalidMethod, fs)
      else
        (let eps_str = replace_dots (py_str eps);
             out = joinpath (joinpath (DERIVED_DIR root) method) (''eps_'' @ eps_str)
         in (case mkdir_p fs out of
               Inl e \<Rightarrow> (Inl e, fs)
             | Inr fs' \<Rightarrow> (Inr out, fs'))))"

section \<open>Loading a region archive\<close>









section \<open>Cohort documents\<close>

definition quoted :: "string \<Rightarrow> string" where
  "quoted s = [CHR 0x27] @ s @ [CHR 0x27]"

definition InvalidGroup :: error where
  "InvalidGroup = ValueError ''group must be one of {'case','control','test'}''"

definition MissingIndices :: "string \<Rightarrow> string \<Rightarrow> error" where
  "MissingIndices grp key =
     KeyError (''cohorts['' @ quoted grp @ ''] is missing '' @ quoted key
       @ ''. Regenerate the cohort split with indices saved.'')"

text \<open>
  A cohort document maps a group name to the group's record, itself a dictionary from
  field names to values. \<^verbatim>\<open>np.array(v, dtype=int)\<close> is the parameter \<open>np_array\<close>.
  A dictionary subscripted with a key it does not have raises \<^verbatim>\<open>KeyError(key)\<close>.
\<close>

type_synonym 'v cohorts = "string \<Rightarrow> (string \<Rightarrow> 'v option) option"

definition get_group_indices ::
  "('v \<Rightarrow> error + int list) \<Rightarrow> 'v cohorts \<Rightarrow> string \<Rightarrow> error + int list" where
  "get_group_indices np_array cohorts grp =
     (if grp \<notin> {''case'', ''control'', ''test''} then Inl InvalidGroup
      else
        (let key = ''indices_in_ceu_matrix'' in
         (case cohorts grp of
            None \<Rightarrow> Inl (KeyError grp)
          | Some r \<Rightarrow>
              (case r key of
                 None \<Rightarrow> Inl (MissingIndices grp key)
               | Some v \<Rightarrow> np_array v))))"

text \<open>
  \<^verbatim>\<open>np.array(xs, dtype=int)\<close> on a list of Python integers, where \<^verbatim>\<open>int\<close> is the
  64-bit dtype: the integers themselves, or \<^verbatim>\<open>OverflowError\<close> when one does not fit.
\<close>

definition np_array_int :: "int list \<Rightarrow> error + int list" where
  "np_array_int xs =
     (if list_all (\<lambda>x. - (2 ^ 63) \<le> x \<and> x < 2 ^ 63) xs then Inr xs
      else Inl (OverflowError ''Python int too large to convert to C long''))"

section \<open>The existence check\<close>

text \<open>The marks the check prints, as their UTF-8 bytes.\<close>

definition check_mark :: string where
  "check_mark = [CHR 0xE2, CHR 0x9C, CHR 0x85]"

definition cross_mark :: string where
  "cross_mark = [CHR 0xE2, CHR 0x9D, CHR 0x8C]"

definition MissingRequiredFiles :: error where
  "MissingRequiredFiles =
     FileNotFoundError (''One or more required files are missing. See '' @ cross_mark
       @ '' lines above.'')"

text \<open>
  \<^verbatim>\<open>str(p.relative_to(other))\<close>: the components of \<open>p\<close> below \<open>other\<close>, and
  \<^verbatim>\<open>ValueError\<close> when \<open>p\<close> is not \<open>other\<close> or below it.
\<close>

definition relative_to :: "path \<Rightarrow> path \<Rightarrow> error + string" where
  "relative_to p other =
     (if prefix other p then
        Inr (if drop (length other) p = [] then ''.''
             else intercalate ''/'' (drop (length other) p))
      else Inl (ValueError (quoted (path_str p) @ '' is not in the subpath of ''
                  @ quoted (path_str other))))"

text \<open>
  The loop of \<^verbatim>\<open>assert_exists\<close>, with the flag \<^verbatim>\<open>ok\<close> and the lines printed so far.
  Both branches evaluate \<^verbatim>\<open>p.relative_to(PROJECT_ROOT)\<close> before they print.
\<close>

fun check_paths ::
  "fs \<Rightarrow> path \<Rightarrow> path list \<Rightarrow> bool \<Rightarrow> string list \<Rightarrow> string list \<times> (error + bool)" where
  "check_paths fs root [] ok printed = (printed, Inr ok)"
| "check_paths fs root (p # ps) ok printed =
     (if path_exists fs p then
        (case relative_to p root of
           Inl e \<Rightarrow> (printed, Inl e)
         | Inr r \<Rightarrow> check_paths fs root ps ok (printed @ [check_mark @ '' '' @ r]))
      else
        (case relative_to p root of
           Inl e \<Rightarrow> (printed, Inl e)
         | Inr r \<Rightarrow> check_paths fs root ps False (printed @ [cross_mark @ '' '' @ r])))"

text \<open>
  \<^verbatim>\<open>assert_exists(paths, label)\<close>: the lines printed, and the exception raised or
  nothing.
\<close>

definition assert_exists ::
  "fs \<Rightarrow> path \<Rightarrow> path list \<Rightarrow> string \<Rightarrow> string list \<times> (error + unit)" where
  "assert_exists fs root paths label =
     (case check_paths fs root paths True [CHR 0x0A # ''=== '' @ label @ '' ===''] of
        (printed, Inl e) \<Rightarrow> (printed, Inl e)
      | (printed, Inr ok) \<Rightarrow>
          if \<not> ok then (printed, Inl MissingRequiredFiles) else (printed, Inr ()))"

section \<open>Example filesystems\<close>



text \<open>A project at \<^verbatim>\<open>/proj\<close> and the file \<^verbatim>\<open>/etc/hosts\<close> outside of it.\<close>

definition fs_hosts :: fs where
  "fs_hosts = [[''etc''] \<mapsto> Dir, [''etc'', ''hosts''] \<mapsto> File, [''proj''] \<mapsto> Dir]"

section \<open>Facts about strings and paths\<close>

lemma split_slash_no_slash: "CHR ''/'' \<notin> set s \<Longrightarrow> split_slash s = [s]"
  by (induction s) auto

lemma joinpath_single:
  "CHR ''/'' \<notin> set s \<Longrightarrow> s \<noteq> [] \<Longrightarrow> s \<noteq> ''.'' \<Longrightarrow> joinpath p s = p @ [s]"
  by (cases s) (auto simp: joinpath_def parse_parts_def split_slash_no_slash)

lemma digit_char_not_slash: "n < 10 \<Longrightarrow> digit_char n \<noteq> CHR ''/''"
proof -
  assume "n < 10"
  then have "''0123456789'' ! n \<in> set ''0123456789''"
    by (intro nth_mem) simp
  then show ?thesis
    unfolding digit_char_def by auto
qed

lemma str_nat_no_slash: "CHR ''/'' \<notin> set (str_nat n)"
proof (induction n rule: str_nat.induct)
  case (1 n)
  show ?case
  proof (cases "n < 10")
    case True
    then show ?thesis
      using digit_char_not_slash [of n] by (simp add: str_nat.simps [of n])
  next
    case False
    have "n mod 10 < 10" by simp
    then have "digit_char (n mod 10) \<noteq> CHR ''/''" by (rule digit_char_not_slash)
    with False "1.IH" show ?thesis
      by (simp add: str_nat.simps [of n])
  qed
qed

lemma str_int_no_slash: "CHR ''/'' \<notin> set (str_int i)"
  by (simp add: str_int_def str_nat_no_slash)


section \<open>The genotype source path\<close>




section \<open>Group indices\<close>



lemma KeyError_group_not_MissingIndices: "KeyError grp \<noteq> MissingIndices grp key"
proof
  assume "KeyError grp = MissingIndices grp key"
  then have "length grp = length (''cohorts['' @ quoted grp @ ''] is missing '' @ quoted key
       @ ''. Regenerate the cohort split with indices saved.'')"
    by (simp add: MissingIndices_def)
  then show False by (simp add: quoted_def)
qed

text \<open>
  Claim C9. For a valid group name that the cohort document has no entry for,
  \<^verbatim>\<open>get_group_indices\<close> fails with the \<^verbatim>\<open>KeyError\<close> of the subscript
  \<^verbatim>\<open>cohorts[group]\<close>, which carries the group name alone, and not with
  \<^verbatim>\<open>MissingIndices\<close> and its guidance, whatever field it would name.
\<close>

theorem get_group_indices_missing_group:
  "grp \<in> {''case'', ''control'', ''test''} \<and> cohorts grp = None \<longrightarrow>
     get_group_indices np_array cohorts grp = Inl (KeyError grp)
     \<and> get_group_indices np_array cohorts grp \<noteq> Inl (MissingIndices grp key)"
  using KeyError_group_not_MissingIndices [of grp key]
  by (simp add: get_group_indices_def)

text \<open>A document with the group \<^verbatim>\<open>case\<close> only, asked for \<^verbatim>\<open>control\<close>.\<close>

theorem get_group_indices_missing_group_witness:
  "get_group_indices np_array_int [''case'' \<mapsto> [''indices_in_ceu_matrix'' \<mapsto> [0, 3, 7]]]
     ''control'' = Inl (KeyError ''control'')
   \<and> get_group_indices np_array_int [''case'' \<mapsto> [''indices_in_ceu_matrix'' \<mapsto> [0, 3, 7]]]
     ''control'' \<noteq> Inl (MissingIndices ''control'' ''indices_in_ceu_matrix'')"
proof -
  have h: "''control'' \<in> {''case'', ''control'', ''test''}
      \<and> [''case'' \<mapsto> [''indices_in_ceu_matrix'' \<mapsto> [0, 3, 7 :: int]]] ''control'' = None"
    by simp
  from get_group_indices_missing_group
         [of "''control''" "[''case'' \<mapsto> [''indices_in_ceu_matrix'' \<mapsto> [0, 3, 7]]]"
             np_array_int "''indices_in_ceu_matrix''"] h
  show ?thesis by (rule mp)
qed

section \<open>Root detection: the nearest marked directory\<close>








section \<open>Facts about creating directories\<close>

text \<open>
  What a successful walk leaves: every entry that was there, every component of the path
  as a directory, and nothing else changed. The walk succeeds exactly when no component
  exists as something other than a directory.
\<close>

lemma free_of_files_iff:
  "free_of_files fs p \<longleftrightarrow> (\<forall>q. q \<noteq> [] \<and> prefix q p \<longrightarrow> fs q \<noteq> Some File)"
  by (auto simp: free_of_files_def list_all_iff)

lemma all_dirs_iff:
  "all_dirs fs p \<longleftrightarrow> (\<forall>q. q \<noteq> [] \<and> prefix q p \<longrightarrow> fs q = Some Dir)"
  by (auto simp: all_dirs_def list_all_iff is_dir_def)

lemma mkdirs_keeps:
  "mkdirs t fs cur cs = Inr fs' \<Longrightarrow> fs r = Some n \<Longrightarrow> fs' r = Some n"
proof (induction cs arbitrary: fs cur)
  case Nil
  then show ?case by simp
next
  case (Cons c cs)
  show ?case
  proof (cases "fs (cur @ [c])")
    case None
    with Cons.prems have "mkdirs t (fs(cur @ [c] \<mapsto> Dir)) (cur @ [c]) cs = Inr fs'" by simp
    moreover from None Cons.prems have "(fs(cur @ [c] \<mapsto> Dir)) r = Some n" by auto
    ultimately show ?thesis by (rule Cons.IH)
  next
    case (Some k)
    with Cons.prems show ?thesis
      by (cases k) (auto intro: Cons.IH)
  qed
qed

lemma mkdirs_creates:
  "mkdirs t fs cur cs = Inr fs' \<Longrightarrow> q \<noteq> [] \<Longrightarrow> prefix q cs \<Longrightarrow> fs' (cur @ q) = Some Dir"
proof (induction cs arbitrary: fs cur q)
  case Nil
  then show ?case by simp
next
  case (Cons c cs)
  from Cons.prems obtain q' where q: "q = c # q'" and p: "prefix q' cs"
    by (cases q) auto
  obtain fs1 where r: "mkdirs t fs1 (cur @ [c]) cs = Inr fs'" and d: "fs1 (cur @ [c]) = Some Dir"
  proof (cases "fs (cur @ [c])")
    case None
    with Cons.prems have "mkdirs t (fs(cur @ [c] \<mapsto> Dir)) (cur @ [c]) cs = Inr fs'" by simp
    then show ?thesis by (rule that) simp
  next
    case (Some k)
    with Cons.prems have "mkdirs t fs (cur @ [c]) cs = Inr fs' \<and> k = Dir"
      by (cases k) auto
    with Some show ?thesis by (intro that [of fs]) auto
  qed
  show ?case
  proof (cases "q' = []")
    case True
    from r d have "fs' (cur @ [c]) = Some Dir" by (rule mkdirs_keeps)
    with True q show ?thesis by simp
  next
    case False
    from r False p have "fs' ((cur @ [c]) @ q') = Some Dir" by (rule Cons.IH)
    with q show ?thesis by simp
  qed
qed

lemma mkdirs_frame:
  "mkdirs t fs cur cs = Inr fs' \<Longrightarrow> \<forall>q. q \<noteq> [] \<and> prefix q cs \<longrightarrow> r \<noteq> cur @ q \<Longrightarrow> fs' r = fs r"
proof (induction cs arbitrary: fs cur)
  case Nil
  then show ?case by simp
next
  case (Cons c cs)
  from Cons.prems(2) have ne: "r \<noteq> cur @ [c]"
    by (metis Cons_prefix_Cons Nil_prefix list.distinct(1))
  have rest: "\<forall>q. q \<noteq> [] \<and> prefix q cs \<longrightarrow> r \<noteq> (cur @ [c]) @ q"
  proof (intro allI impI)
    fix q assume "q \<noteq> [] \<and> prefix q cs"
    then have "c # q \<noteq> [] \<and> prefix (c # q) (c # cs)" by simp
    with Cons.prems(2) have "r \<noteq> cur @ c # q" by blast
    then show "r \<noteq> (cur @ [c]) @ q" by simp
  qed
  show ?case
  proof (cases "fs (cur @ [c])")
    case None
    with Cons.prems have "mkdirs t (fs(cur @ [c] \<mapsto> Dir)) (cur @ [c]) cs = Inr fs'" by simp
    from Cons.IH [OF this rest] ne show ?thesis by simp
  next
    case (Some k)
    with Cons.prems have "mkdirs t fs (cur @ [c]) cs = Inr fs'"
      by (cases k) auto
    from Cons.IH [OF this rest] show ?thesis .
  qed
qed

lemma mkdirs_succeeds:
  "\<forall>q. q \<noteq> [] \<and> prefix q cs \<longrightarrow> fs (cur @ q) \<noteq> Some File \<Longrightarrow> \<exists>fs'. mkdirs t fs cur cs = Inr fs'"
proof (induction cs arbitrary: fs cur)
  case Nil
  then show ?case by simp
next
  case (Cons c cs)
  from Cons.prems have nf: "fs (cur @ [c]) \<noteq> Some File"
    by (metis Cons_prefix_Cons Nil_prefix list.distinct(1))
  have rest: "\<forall>q. q \<noteq> [] \<and> prefix q cs \<longrightarrow> fs ((cur @ [c]) @ q) \<noteq> Some File"
  proof (intro allI impI)
    fix q assume "q \<noteq> [] \<and> prefix q cs"
    then have "c # q \<noteq> [] \<and> prefix (c # q) (c # cs)" by simp
    with Cons.prems have "fs (cur @ c # q) \<noteq> Some File" by blast
    then show "fs ((cur @ [c]) @ q) \<noteq> Some File" by simp
  qed
  show ?case
  proof (cases "fs (cur @ [c])")
    case None
    have step: "mkdirs t fs cur (c # cs) = mkdirs t (fs(cur @ [c] \<mapsto> Dir)) (cur @ [c]) cs"
      using None by simp
    have "\<forall>q. q \<noteq> [] \<and> prefix q cs \<longrightarrow> (fs(cur @ [c] \<mapsto> Dir)) ((cur @ [c]) @ q) \<noteq> Some File"
      using rest by simp
    then have "\<exists>fs'. mkdirs t (fs(cur @ [c] \<mapsto> Dir)) (cur @ [c]) cs = Inr fs'"
      by (rule Cons.IH)
    then show ?thesis unfolding step .
  next
    case (Some k)
    with nf have "k = Dir" by (cases k) auto
    with Some Cons.IH [OF rest] show ?thesis by simp
  qed
qed



text \<open>The same facts for \<^const>\<open>mkdir_p\<close>.\<close>

lemma mkdir_p_succeeds: "free_of_files fs p \<Longrightarrow> \<exists>fs'. mkdir_p fs p = Inr fs'"
  unfolding mkdir_p_def free_of_files_iff
  by (rule mkdirs_succeeds) simp


lemma mkdir_p_all_dirs: "mkdir_p fs p = Inr fs' \<Longrightarrow> all_dirs fs' p"
  unfolding mkdir_p_def all_dirs_iff
  using mkdirs_creates [of p fs "[]" p fs'] by simp

lemma mkdir_p_keeps: "mkdir_p fs p = Inr fs' \<Longrightarrow> fs r = Some n \<Longrightarrow> fs' r = Some n"
  unfolding mkdir_p_def by (rule mkdirs_keeps)

lemma mkdir_p_frame:
  "mkdir_p fs p = Inr fs' \<Longrightarrow> \<not> prefix r p \<Longrightarrow> fs' r = fs r"
  unfolding mkdir_p_def
  by (rule mkdirs_frame) auto


section \<open>The method output directory\<close>

text \<open>
  With a valid method name, \<^const>\<open>method_dir\<close> is the creation of the directory
  \<^verbatim>\<open>DERIVED_DIR / method / f"eps_{eps_str}"\<close> followed by the return of that path.
\<close>

lemma DERIVED_DIR_parts: "DERIVED_DIR root = root @ [''data'', ''derived'']"
  by (simp add: DERIVED_DIR_def DATA_DIR_def joinpath_single)

lemma joinpath_method:
  "method \<in> {''method1'', ''method2'', ''method3''} \<Longrightarrow>
     joinpath (DERIVED_DIR root) method = root @ [''data'', ''derived'', method]"
  by (auto simp: DERIVED_DIR_parts joinpath_single)

lemma replace_dots_no_slash: "CHR ''/'' \<notin> set s \<Longrightarrow> CHR ''/'' \<notin> set (replace_dots s)"
  by (auto simp: replace_dots_def)

lemma joinpath_eps:
  "CHR ''/'' \<notin> set s \<Longrightarrow>
     joinpath p (''eps_'' @ replace_dots s) = p @ [''eps_'' @ replace_dots s]"
  by (rule joinpath_single) (simp_all add: replace_dots_no_slash)

lemma method_dir_valid:
  assumes "method \<in> {''method1'', ''method2'', ''method3''}"
  shows "method_dir py_str root method eps fs =
     (case mkdir_p fs (joinpath (joinpath (DERIVED_DIR root) method)
                         (''eps_'' @ replace_dots (py_str eps))) of
        Inl e \<Rightarrow> (Inl e, fs)
      | Inr fs' \<Rightarrow> (Inr (joinpath (joinpath (DERIVED_DIR root) method)
                           (''eps_'' @ replace_dots (py_str eps))), fs'))"
  using assms unfolding method_dir_def Let_def by (simp split: sum.splits)

lemma method_dir_returns:
  assumes "method \<in> {''method1'', ''method2'', ''method3''}"
    and "method_dir py_str root method eps fs = (Inr out, fs')"
  shows "out = joinpath (joinpath (DERIVED_DIR root) method) (''eps_'' @ replace_dots (py_str eps))
     \<and> mkdir_p fs out = Inr fs'"
  using assms(2) unfolding method_dir_valid [OF assms(1)]
  by (auto split: sum.splits)

lemma method_dir_succeeds:
  assumes "method \<in> {''method1'', ''method2'', ''method3''}"
    and "free_of_files fs (joinpath (joinpath (DERIVED_DIR root) method)
                             (''eps_'' @ replace_dots (py_str eps)))"
  shows "\<exists>fs'. method_dir py_str root method eps fs =
     (Inr (joinpath (joinpath (DERIVED_DIR root) method) (''eps_'' @ replace_dots (py_str eps))),
      fs')"
proof -
  from mkdir_p_succeeds [OF assms(2)] obtain fs' where
    "mkdir_p fs (joinpath (joinpath (DERIVED_DIR root) method)
       (''eps_'' @ replace_dots (py_str eps))) = Inr fs'" ..
  then show ?thesis
    unfolding method_dir_valid [OF assms(1)] by simp
qed


lemma str_int_10: "str_int 10 = ''10''"
  by (simp add: str_int_def str_nat.simps digit_char_def)

lemma free_of_files_empty: "free_of_files Map.empty p"
  by (simp add: free_of_files_iff)

lemma str_int_5: "str_int 5 = ''5''"
  by (simp add: str_int_def str_nat.simps digit_char_def)

lemma all_dirs_is_dir: "all_dirs fs p \<Longrightarrow> is_dir fs p"
  by (simp add: all_dirs_def list_all_iff)

lemma str_int_1: "str_int 1 = ''1''"
  by (simp add: str_int_def str_nat.simps digit_char_def)

lemma method1_eps_1:
  "joinpath (joinpath (DERIVED_DIR [''proj'']) ''method1'') (''eps_'' @ replace_dots (str_int 1))
     = [''proj'', ''data'', ''derived'', ''method1'', ''eps_1'']"
proof -
  have m: "''method1'' \<in> {''method1'', ''method2'', ''method3''}" by simp
  have "CHR ''/'' \<notin> set (str_int 1)" by (rule str_int_no_slash)
  from joinpath_eps [OF this] show ?thesis
    unfolding joinpath_method [OF m] by (simp add: replace_dots_def str_int_1)
qed







text \<open>
  Claim C2. For every valid method name and every value of \<^verbatim>\<open>eps\<close>, the path
  \<^verbatim>\<open>method_dir\<close> returns is the derived directory joined with the method name and with
  \<^verbatim>\<open>eps_\<close> followed by \<^verbatim>\<open>str(eps)\<close> in which every dot is replaced by an underscore; it
  is returned whenever no component of that path exists as something other than a
  directory, and it is the single name \<^verbatim>\<open>eps_...\<close> below \<^verbatim>\<open>data/derived/<method>\<close> when
  \<^verbatim>\<open>str(eps)\<close> has no slash. A value printed as \<^verbatim>\<open>0.1\<close> gives \<^verbatim>\<open>method1/eps_0_1\<close>, the
  integer 10 gives \<^verbatim>\<open>eps_10\<close>.
\<close>

theorem method_dir_path_spec:
  "(method \<in> {''method1'', ''method2'', ''method3''} \<longrightarrow>
      (\<forall>out fs'. method_dir py_str root method eps fs = (Inr out, fs') \<longrightarrow>
         out = joinpath (joinpath (DERIVED_DIR root) method)
                 (''eps_'' @ replace_dots (py_str eps)))
      \<and> (free_of_files fs (joinpath (joinpath (DERIVED_DIR root) method)
                             (''eps_'' @ replace_dots (py_str eps))) \<longrightarrow>
           fst (method_dir py_str root method eps fs) =
             Inr (joinpath (joinpath (DERIVED_DIR root) method)
                    (''eps_'' @ replace_dots (py_str eps))))
      \<and> (CHR ''/'' \<notin> set (py_str eps) \<longrightarrow>
           joinpath (joinpath (DERIVED_DIR root) method) (''eps_'' @ replace_dots (py_str eps))
             = root @ [''data'', ''derived'', method, ''eps_'' @ replace_dots (py_str eps)]))
   \<and> (py_str e = ''0.1''
        \<and> free_of_files fs2 (root @ [''data'', ''derived'', ''method1'', ''eps_0_1'']) \<longrightarrow>
        fst (method_dir py_str root ''method1'' e fs2)
          = Inr (root @ [''data'', ''derived'', ''method1'', ''eps_0_1'']))
   \<and> (free_of_files fs3 (root @ [''data'', ''derived'', ''method1'', ''eps_10'']) \<longrightarrow>
        fst (method_dir str_int root ''method1'' 10 fs3)
          = Inr (root @ [''data'', ''derived'', ''method1'', ''eps_10'']))"
proof (intro conjI impI allI)
  fix out fs'
  assume v: "method \<in> {''method1'', ''method2'', ''method3''}"
    and r: "method_dir py_str root method eps fs = (Inr out, fs')"
  from method_dir_returns [OF v r]
  show "out = joinpath (joinpath (DERIVED_DIR root) method)
                 (''eps_'' @ replace_dots (py_str eps))"
    by (rule conjunct1)
next
  assume v: "method \<in> {''method1'', ''method2'', ''method3''}"
    and f: "free_of_files fs (joinpath (joinpath (DERIVED_DIR root) method)
                             (''eps_'' @ replace_dots (py_str eps)))"
  from method_dir_succeeds [where py_str = py_str and eps = eps, OF v f] obtain fs' where
    "method_dir py_str root method eps fs =
       (Inr (joinpath (joinpath (DERIVED_DIR root) method)
               (''eps_'' @ replace_dots (py_str eps))), fs')" ..
  then show "fst (method_dir py_str root method eps fs) =
             Inr (joinpath (joinpath (DERIVED_DIR root) method)
                    (''eps_'' @ replace_dots (py_str eps)))"
    by simp
next
  assume v: "method \<in> {''method1'', ''method2'', ''method3''}"
    and n: "CHR ''/'' \<notin> set (py_str eps)"
  show "joinpath (joinpath (DERIVED_DIR root) method) (''eps_'' @ replace_dots (py_str eps))
             = root @ [''data'', ''derived'', method, ''eps_'' @ replace_dots (py_str eps)]"
    unfolding joinpath_method [OF v] joinpath_eps [OF n] by simp
next
  assume a: "py_str e = ''0.1''
        \<and> free_of_files fs2 (root @ [''data'', ''derived'', ''method1'', ''eps_0_1''])"
  have m: "''method1'' \<in> {''method1'', ''method2'', ''method3''}" by simp
  have "CHR ''/'' \<notin> set (py_str e)" using a by simp
  from joinpath_eps [OF this]
  have p: "joinpath (joinpath (DERIVED_DIR root) ''method1'') (''eps_'' @ replace_dots (py_str e))
      = root @ [''data'', ''derived'', ''method1'', ''eps_0_1'']"
    unfolding joinpath_method [OF m] using a by (simp add: replace_dots_def)
  from a have "free_of_files fs2
      (joinpath (joinpath (DERIVED_DIR root) ''method1'') (''eps_'' @ replace_dots (py_str e)))"
    unfolding p by simp
  from method_dir_succeeds [where py_str = py_str and eps = e, OF m this] obtain fs' where
    "method_dir py_str root ''method1'' e fs2 =
       (Inr (joinpath (joinpath (DERIVED_DIR root) ''method1'')
               (''eps_'' @ replace_dots (py_str e))), fs')" ..
  then show "fst (method_dir py_str root ''method1'' e fs2)
          = Inr (root @ [''data'', ''derived'', ''method1'', ''eps_0_1''])"
    unfolding p by simp
next
  assume a: "free_of_files fs3 (root @ [''data'', ''derived'', ''method1'', ''eps_10''])"
  have m: "''method1'' \<in> {''method1'', ''method2'', ''method3''}" by simp
  have "CHR ''/'' \<notin> set (str_int 10)" by (rule str_int_no_slash)
  from joinpath_eps [OF this]
  have p: "joinpath (joinpath (DERIVED_DIR root) ''method1'') (''eps_'' @ replace_dots (str_int 10))
      = root @ [''data'', ''derived'', ''method1'', ''eps_10'']"
    unfolding joinpath_method [OF m] by (simp add: replace_dots_def str_int_10)
  from a have "free_of_files fs3
      (joinpath (joinpath (DERIVED_DIR root) ''method1'') (''eps_'' @ replace_dots (str_int 10)))"
    unfolding p by simp
  from method_dir_succeeds [where py_str = str_int and eps = 10, OF m this] obtain fs' where
    "method_dir str_int root ''method1'' 10 fs3 =
       (Inr (joinpath (joinpath (DERIVED_DIR root) ''method1'')
               (''eps_'' @ replace_dots (str_int 10))), fs')" ..
  then show "fst (method_dir str_int root ''method1'' 10 fs3)
          = Inr (root @ [''data'', ''derived'', ''method1'', ''eps_10''])"
    unfolding p by simp
qed

text \<open>The integer 5 and the string \<^verbatim>\<open>0.1\<close>, on an empty filesystem.\<close>

theorem method_dir_path_spec_witness:
  "fst (method_dir str_int [''proj''] ''method2'' 5 Map.empty)
     = Inr [''proj'', ''data'', ''derived'', ''method2'', ''eps_5'']
   \<and> fst (method_dir (\<lambda>s. s) [''proj''] ''method1'' ''0.1'' Map.empty)
     = Inr [''proj'', ''data'', ''derived'', ''method1'', ''eps_0_1'']"
proof -
  have m: "''method2'' \<in> {''method1'', ''method2'', ''method3''}" by simp
  have n: "CHR ''/'' \<notin> set (str_int 5)" by (rule str_int_no_slash)
  note t = method_dir_path_spec
    [of "''method2''", where py_str = str_int and eps = 5 and root = "[''proj'']"
       and fs = Map.empty and e = 5 and ?fs2.0 = Map.empty and ?fs3.0 = Map.empty]
  from t m n have p: "joinpath (joinpath (DERIVED_DIR [''proj'']) ''method2'')
        (''eps_'' @ replace_dots (str_int 5))
      = [''proj''] @ [''data'', ''derived'', ''method2'', ''eps_'' @ replace_dots (str_int 5)]"
    by blast
  from t m free_of_files_empty
  have "fst (method_dir str_int [''proj''] ''method2'' 5 Map.empty)
      = Inr (joinpath (joinpath (DERIVED_DIR [''proj'']) ''method2'')
               (''eps_'' @ replace_dots (str_int 5)))"
    by blast
  then have a: "fst (method_dir str_int [''proj''] ''method2'' 5 Map.empty)
     = Inr [''proj'', ''data'', ''derived'', ''method2'', ''eps_5'']"
    unfolding p by (simp add: str_int_5 replace_dots_def)
  note u = method_dir_path_spec
    [of "''method1''", where py_str = "\<lambda>s. s" and eps = "''0.1''"
       and root = "[''proj'']" and fs = Map.empty and e = "''0.1''" and ?fs2.0 = Map.empty
       and ?fs3.0 = Map.empty]
  from u free_of_files_empty
  have b: "fst (method_dir (\<lambda>s. s) [''proj''] ''method1'' ''0.1'' Map.empty)
     = Inr ([''proj''] @ [''data'', ''derived'', ''method1'', ''eps_0_1''])"
    by blast
  from a b show ?thesis by simp
qed

text \<open>
  Claim C7. A method name outside \<^verbatim>\<open>method1\<close>, \<^verbatim>\<open>method2\<close>, \<^verbatim>\<open>method3\<close> makes
  \<^verbatim>\<open>method_dir\<close> fail with \<^verbatim>\<open>InvalidMethod\<close> whatever the filesystem is, and leaves the
  filesystem as it was. With a valid name, when the call returns a path, that path and all
  its parents are directories of the filesystem it leaves, and every entry that existed
  before is still there; and the call does return when no component of the path exists as
  something other than a directory.
\<close>

theorem method_dir_validation_spec:
  "(method \<notin> {''method1'', ''method2'', ''method3''} \<longrightarrow>
      method_dir py_str root method eps fs = (Inl InvalidMethod, fs))
   \<and> (method \<in> {''method1'', ''method2'', ''method3''}
        \<and> method_dir py_str root method eps fs = (Inr out, fs') \<longrightarrow>
        all_dirs fs' out \<and> is_dir fs' out \<and> (\<forall>r n. fs r = Some n \<longrightarrow> fs' r = Some n))
   \<and> (method \<in> {''method1'', ''method2'', ''method3''}
        \<and> free_of_files fs (joinpath (joinpath (DERIVED_DIR root) method)
                              (''eps_'' @ replace_dots (py_str eps))) \<longrightarrow>
        (\<exists>fs1. method_dir py_str root method eps fs =
           (Inr (joinpath (joinpath (DERIVED_DIR root) method)
                   (''eps_'' @ replace_dots (py_str eps))), fs1)))"
proof -
  have A: "method \<notin> {''method1'', ''method2'', ''method3''} \<longrightarrow>
      method_dir py_str root method eps fs = (Inl InvalidMethod, fs)"
    by (simp add: method_dir_def)
  have B: "method \<in> {''method1'', ''method2'', ''method3''}
        \<and> method_dir py_str root method eps fs = (Inr out, fs') \<longrightarrow>
        all_dirs fs' out \<and> is_dir fs' out \<and> (\<forall>r n. fs r = Some n \<longrightarrow> fs' r = Some n)"
  proof (rule impI)
    assume a: "method \<in> {''method1'', ''method2'', ''method3''}
        \<and> method_dir py_str root method eps fs = (Inr out, fs')"
    then have v: "method \<in> {''method1'', ''method2'', ''method3''}"
      and r: "method_dir py_str root method eps fs = (Inr out, fs')"
      by simp_all
    from method_dir_returns [OF v r] have k: "mkdir_p fs out = Inr fs'" by (rule conjunct2)
    from k have d: "all_dirs fs' out" by (rule mkdir_p_all_dirs)
    from d have i: "is_dir fs' out" by (rule all_dirs_is_dir)
    have "\<forall>r n. fs r = Some n \<longrightarrow> fs' r = Some n"
      using mkdir_p_keeps [OF k] by blast
    with d i show "all_dirs fs' out \<and> is_dir fs' out \<and> (\<forall>r n. fs r = Some n \<longrightarrow> fs' r = Some n)"
      by simp
  qed
  have C: "method \<in> {''method1'', ''method2'', ''method3''}
        \<and> free_of_files fs (joinpath (joinpath (DERIVED_DIR root) method)
                              (''eps_'' @ replace_dots (py_str eps))) \<longrightarrow>
        (\<exists>fs1. method_dir py_str root method eps fs =
           (Inr (joinpath (joinpath (DERIVED_DIR root) method)
                   (''eps_'' @ replace_dots (py_str eps))), fs1))"
  proof (rule impI)
    assume a: "method \<in> {''method1'', ''method2'', ''method3''}
        \<and> free_of_files fs (joinpath (joinpath (DERIVED_DIR root) method)
                              (''eps_'' @ replace_dots (py_str eps)))"
    then have v: "method \<in> {''method1'', ''method2'', ''method3''}"
      and f: "free_of_files fs (joinpath (joinpath (DERIVED_DIR root) method)
                              (''eps_'' @ replace_dots (py_str eps)))"
      by simp_all
    from method_dir_succeeds [where py_str = py_str and eps = eps, OF v f]
    show "\<exists>fs1. method_dir py_str root method eps fs =
           (Inr (joinpath (joinpath (DERIVED_DIR root) method)
                   (''eps_'' @ replace_dots (py_str eps))), fs1)" .
  qed
  show ?thesis by (rule conjI [OF A conjI [OF B C]])
qed

text \<open>The names \<^verbatim>\<open>method9\<close> and \<^verbatim>\<open>method1\<close> with \<^verbatim>\<open>eps = 1\<close>, on an empty filesystem.\<close>

theorem method_dir_validation_spec_witness:
  "method_dir str_int [''proj''] ''method9'' 1 Map.empty = (Inl InvalidMethod, Map.empty)
   \<and> (\<exists>fs1. method_dir str_int [''proj''] ''method1'' 1 Map.empty
               = (Inr [''proj'', ''data'', ''derived'', ''method1'', ''eps_1''], fs1)
            \<and> all_dirs fs1 [''proj'', ''data'', ''derived'', ''method1'', ''eps_1'']
            \<and> is_dir fs1 [''proj'', ''data'', ''derived'', ''method1'', ''eps_1''])"
proof -
  have i: "''method9'' \<notin> {''method1'', ''method2'', ''method3''}" by simp
  have m: "''method1'' \<in> {''method1'', ''method2'', ''method3''}" by simp
  note t = method_dir_validation_spec
         [of "''method9''", where py_str = str_int and eps = 1 and root = "[''proj'']"
            and fs = Map.empty]
  from t [THEN conjunct1, THEN mp, OF i]
  have a: "method_dir str_int [''proj''] ''method9'' 1 Map.empty = (Inl InvalidMethod, Map.empty)" .
  note u = method_dir_validation_spec
         [of "''method1''", where py_str = str_int and eps = 1 and root = "[''proj'']"
            and fs = Map.empty]
  from u [THEN conjunct2, THEN conjunct2, THEN mp, OF conjI [OF m free_of_files_empty]]
  obtain fs1 where r: "method_dir str_int [''proj''] ''method1'' 1 Map.empty
      = (Inr [''proj'', ''data'', ''derived'', ''method1'', ''eps_1''], fs1)"
    unfolding method1_eps_1 ..
  from u [THEN conjunct2, THEN conjunct1, THEN mp, OF conjI [OF m r]]
  have "all_dirs fs1 [''proj'', ''data'', ''derived'', ''method1'', ''eps_1'']
      \<and> is_dir fs1 [''proj'', ''data'', ''derived'', ''method1'', ''eps_1'']"
    by simp
  with r have "\<exists>fs1. method_dir str_int [''proj''] ''method1'' 1 Map.empty
               = (Inr [''proj'', ''data'', ''derived'', ''method1'', ''eps_1''], fs1)
            \<and> all_dirs fs1 [''proj'', ''data'', ''derived'', ''method1'', ''eps_1'']
            \<and> is_dir fs1 [''proj'', ''data'', ''derived'', ''method1'', ''eps_1'']"
    by (intro exI [of _ fs1]) simp
  with a show ?thesis by (rule conjI)
qed



section \<open>Creating the layout: idempotence\<close>















section \<open>The existence check: paths outside the project root\<close>

text \<open>
  When every path of the tuple is the project root or below it, \<^verbatim>\<open>assert_exists\<close>
  prints one line for each path after the header, and raises
  \<^verbatim>\<open>MissingRequiredFiles\<close> after the loop exactly when some path does not exist.
\<close>

lemma relative_to_under: "prefix root p \<Longrightarrow> \<exists>r. relative_to p root = Inr r"
  by (simp add: relative_to_def)

lemma check_paths_under_root:
  "list_all (prefix root) ps \<Longrightarrow>
     \<exists>more. check_paths fs root ps ok printed
       = (printed @ more, Inr (ok \<and> list_all (path_exists fs) ps)) \<and> length more = length ps"
proof (induction ps arbitrary: ok printed)
  case Nil
  then show ?case by simp
next
  case (Cons p ps)
  then have u: "prefix root p" and rest: "list_all (prefix root) ps" by simp_all
  from relative_to_under [OF u] obtain r where r: "relative_to p root = Inr r" ..
  show ?case
  proof (cases "path_exists fs p")
    case True
    from Cons.IH [OF rest, of ok "printed @ [check_mark @ '' '' @ r]"]
    obtain more where
      m: "check_paths fs root ps ok (printed @ [check_mark @ '' '' @ r])
            = ((printed @ [check_mark @ '' '' @ r]) @ more,
               Inr (ok \<and> list_all (path_exists fs) ps))"
      and l: "length more = length ps"
      by blast
    have "check_paths fs root (p # ps) ok printed
        = (printed @ ((check_mark @ '' '' @ r) # more),
           Inr (ok \<and> list_all (path_exists fs) (p # ps)))"
      using True r m by simp
    with l show ?thesis
      by (intro exI [of _ "(check_mark @ '' '' @ r) # more"]) simp
  next
    case False
    from Cons.IH [OF rest, of False "printed @ [cross_mark @ '' '' @ r]"]
    obtain more where
      m: "check_paths fs root ps False (printed @ [cross_mark @ '' '' @ r])
            = ((printed @ [cross_mark @ '' '' @ r]) @ more,
               Inr (False \<and> list_all (path_exists fs) ps))"
      and l: "length more = length ps"
      by blast
    have "check_paths fs root (p # ps) ok printed
        = (printed @ ((cross_mark @ '' '' @ r) # more),
           Inr (ok \<and> list_all (path_exists fs) (p # ps)))"
      using False r m by simp
    with l show ?thesis
      by (intro exI [of _ "(cross_mark @ '' '' @ r) # more"]) simp
  qed
qed

lemma assert_exists_under_root:
  assumes "list_all (prefix root) paths"
  shows "snd (assert_exists fs root paths label)
           = (if list_all (path_exists fs) paths then Inr () else Inl MissingRequiredFiles)"
    and "length (fst (assert_exists fs root paths label)) = Suc (length paths)"
proof -
  from check_paths_under_root [OF assms, of fs True "[CHR 0x0A # ''=== '' @ label @ '' ==='']"]
  obtain more where
    m: "check_paths fs root paths True [CHR 0x0A # ''=== '' @ label @ '' ===''] =
        ([CHR 0x0A # ''=== '' @ label @ '' ===''] @ more,
         Inr (True \<and> list_all (path_exists fs) paths))"
    and l: "length more = length paths"
    by blast
  from m show "snd (assert_exists fs root paths label)
           = (if list_all (path_exists fs) paths then Inr () else Inl MissingRequiredFiles)"
    by (simp add: assert_exists_def)
  from m l show "length (fst (assert_exists fs root paths label)) = Suc (length paths)"
    by (simp add: assert_exists_def)
qed

text \<open>
  Claim C8 says that for every tuple of paths the check inspects every path, fails with
  \<^verbatim>\<open>MissingRequiredFiles\<close> exactly when some path is absent, and returns without error
  when every path exists. The code does not do so for a path outside the project root:
  both branches of the loop evaluate \<^verbatim>\<open>p.relative_to(PROJECT_ROOT)\<close>, which raises
  \<^verbatim>\<open>ValueError\<close> there. With the project at \<^verbatim>\<open>/proj\<close>, the existing file
  \<^verbatim>\<open>/etc/hosts\<close> alone makes the call raise \<^verbatim>\<open>ValueError\<close> after the header line; and
  the absent \<^verbatim>\<open>/etc/passwd\<close> followed by the absent \<^verbatim>\<open>/proj/missing.txt\<close> makes it
  raise \<^verbatim>\<open>ValueError\<close> at the first path, with no line printed for either.
\<close>

theorem assert_exists_outside_root:
  "assert_exists fs_hosts [''proj''] [[''etc'', ''hosts'']] ''FILE EXISTENCE CHECK''
     = ([CHR 0x0A # ''=== FILE EXISTENCE CHECK ===''],
        Inl (ValueError (quoted ''/etc/hosts'' @ '' is not in the subpath of '' @ quoted ''/proj'')))
   \<and> assert_exists fs_hosts [''proj''] [[''etc'', ''passwd''], [''proj'', ''missing.txt'']]
       ''FILE EXISTENCE CHECK''
     = ([CHR 0x0A # ''=== FILE EXISTENCE CHECK ===''],
        Inl (ValueError (quoted ''/etc/passwd'' @ '' is not in the subpath of '' @ quoted ''/proj'')))"
  by (simp add: assert_exists_def fs_hosts_def path_exists_def relative_to_def path_str_def)

section \<open>Loading a region archive: the normalised fields\<close>
















end
